theory Spec2Isabelle
  imports Complex_Main "HOL-Library.Monad_Syntax"
begin

section \<open>The fraud detector of the resume sorter\<close>

text \<open>
  This theory embeds the class \<open>FraudDetector\<close> of \<open>backend/fraud_detector.py\<close>: its six
  detectors, the two colour helpers and the aggregating method \<open>analyze\<close>.

  \<^item> Python floats are read as exact real numbers.
  \<^item> The libraries the detector calls are not part of the repository. What they return for
    the analysed file is an input of the model: the pages and characters that
    \<open>pdfplumber\<close> reports, the decoded content streams that \<open>PyPDF2\<close> reports, the
    reading-ease score of \<open>textstat\<close>, and the character tables of Python's Unicode
    database. Each of these calls can raise; then the input holds no result.
  \<^item> Every \<open>try\<close> block is a computation in \<open>option\<close>: \<open>None\<close> is a raised
    exception, and the \<open>except\<close> branch says what the detector returns then.
  \<^item> The \<open>details\<close> dictionary of a detector holds counters for display that no later
    step reads. Of its entries the model keeps the one a detector writes when it fails
    (\<open>details["error"]\<close>).
\<close>

subsection \<open>Python values\<close>

text \<open>
  The values a dictionary of the input can hold under a key: \<open>None\<close>, a number, a string
  or a tuple. Strings of this kind (colours, the text of a character, the file path, the
  content stream decoded as latin-1) are sequences of code points below 256.
\<close>

datatype pyval = PNone | PNum real | PStr string | PSeq "pyval list"

text \<open>Truth value of a Python object (\<open>if x:\<close>).\<close>

fun truthy :: "pyval \<Rightarrow> bool" where
  "truthy PNone = False"
| "truthy (PNum r) = (r \<noteq> 0)"
| "truthy (PStr s) = (s \<noteq> [])"
| "truthy (PSeq xs) = (xs \<noteq> [])"

text \<open>
  \<open>v < b\<close> and \<open>v > b\<close> against a number literal: a number compares, every other value
  raises \<open>TypeError\<close>.
\<close>

fun py_lt :: "pyval \<Rightarrow> real \<Rightarrow> bool option" where
  "py_lt (PNum a) b = Some (a < b)"
| "py_lt _ b = None"

fun py_gt :: "pyval \<Rightarrow> real \<Rightarrow> bool option" where
  "py_gt (PNum a) b = Some (a > b)"
| "py_gt _ b = None"

text \<open>\<open>abs(a - b) < d\<close>: subtraction is defined between numbers only.\<close>

fun py_near :: "pyval \<Rightarrow> pyval \<Rightarrow> real \<Rightarrow> bool option" where
  "py_near (PNum a) (PNum b) d = Some (\<bar>a - b\<bar> < d)"
| "py_near _ _ d = None"

text \<open>Short-circuit \<open>or\<close> and \<open>and\<close> of conditions that can raise.\<close>

definition py_or :: "bool option \<Rightarrow> bool option \<Rightarrow> bool option" where
  "py_or a b = (case a of None \<Rightarrow> None | Some True \<Rightarrow> Some True | Some False \<Rightarrow> b)"

definition py_and :: "bool option \<Rightarrow> bool option \<Rightarrow> bool option" where
  "py_and a b = (case a of None \<Rightarrow> None | Some False \<Rightarrow> Some False | Some True \<Rightarrow> b)"

subsection \<open>Colour helpers\<close>

text \<open>\<open>color.lstrip('#')\<close> removes every leading \<open>#\<close>.\<close>

definition lstrip_hash :: "string \<Rightarrow> string" where
  "lstrip_hash s = dropWhile (\<lambda>c. c = CHR ''#'') s"

definition hexval :: "char \<Rightarrow> int option" where
  "hexval c = (let n = (of_char c :: nat) in
     if 48 \<le> n \<and> n \<le> 57 then Some (int n - 48)
     else if 97 \<le> n \<and> n \<le> 102 then Some (int n - 87)
     else if 65 \<le> n \<and> n \<le> 70 then Some (int n - 55)
     else None)"

text \<open>
  The white space that \<open>int\<close> strips from a string of code points below 256: tab, line
  feed, vertical tab, form feed, carriage return, space, NEL and the no-break space.
\<close>

definition int_space :: "char \<Rightarrow> bool" where
  "int_space c = ((of_char c :: nat) \<in> {9, 10, 11, 12, 13, 32, 133, 160})"

text \<open>
  \<open>int(s, 16)\<close> on the two-character slices the helpers pass: two hexadecimal digits; or
  one digit after a sign or after white space; or one digit before white space. Everything
  else raises \<open>ValueError\<close> (a slice of another length does not occur: the stripped colour
  has six characters).
\<close>

fun int16 :: "string \<Rightarrow> int option" where
  "int16 [a, b] =
     (case (hexval a, hexval b) of
        (Some x, Some y) \<Rightarrow> Some (16 * x + y)
      | (None, Some y) \<Rightarrow>
          if int_space a \<or> a = CHR ''+'' then Some y
          else if a = CHR ''-'' then Some (- y) else None
      | (Some x, None) \<Rightarrow> if int_space b then Some x else None
      | (None, None) \<Rightarrow> None)"
| "int16 s = None"

text \<open>
  The conversion both helpers start with: strip, test the length, read the three channels
  \<open>color[0:2]\<close>, \<open>color[2:4]\<close>, \<open>color[4:6]\<close>. \<open>None\<close> when the value is not a string
  (\<open>lstrip\<close> raises), when the length is not six (the \<open>if\<close> is skipped) or when a channel
  does not convert; in each of these cases the helper returns \<open>False\<close>.
\<close>

definition rgb_of :: "pyval \<Rightarrow> (int \<times> int \<times> int) option" where
  "rgb_of color =
     (case color of
        PStr s \<Rightarrow>
          (let c = lstrip_hash s in
           if length c = 6 then
             (case int16 (take 2 c) of None \<Rightarrow> None | Some r \<Rightarrow>
              (case int16 (take 2 (drop 2 c)) of None \<Rightarrow> None | Some g \<Rightarrow>
               (case int16 (take 2 (drop 4 c)) of None \<Rightarrow> None | Some b \<Rightarrow> Some (r, g, b))))
           else None)
      | _ \<Rightarrow> None)"

definition is_light_color :: "pyval \<Rightarrow> bool" where
  "is_light_color color =
     (case rgb_of color of
        None \<Rightarrow> False
      | Some (r, g, b) \<Rightarrow>
          (0.299 * real_of_int r + 0.587 * real_of_int g + 0.114 * real_of_int b) / 255 > 0.9)"

text \<open>
  The Euclidean distance \<open>((r1-r2)**2 + (g1-g2)**2 + (b1-b2)**2)**0.5\<close> is below 30
  exactly when the sum of squares, an integer, is below 900.
\<close>

definition colors_too_similar :: "pyval \<Rightarrow> pyval \<Rightarrow> bool" where
  "colors_too_similar color1 color2 =
     (case rgb_of color1 of
        None \<Rightarrow> False
      | Some (r1, g1, b1) \<Rightarrow>
          (case rgb_of color2 of
             None \<Rightarrow> False
           | Some (r2, g2, b2) \<Rightarrow> (r1 - r2)\<^sup>2 + (g1 - g2)\<^sup>2 + (b1 - b2)\<^sup>2 < 900))"

subsection \<open>The document as the libraries report it\<close>

text \<open>
  One character of a \<open>pdfplumber\<close> page is a dictionary; a field is \<open>None\<close> when the
  key is absent.
\<close>

record glyph =
  ch_color :: "pyval option"
  ch_size :: "pyval option"
  ch_x0 :: "pyval option"
  ch_y0 :: "pyval option"
  ch_text :: "pyval option"
  ch_bgcolor :: "pyval option"

record page =
  chars :: "glyph list"
  bbox :: "real \<times> real \<times> real \<times> real"

text \<open>
  \<open>plumber\<close>: the pages \<open>pdfplumber.open\<close> yields, or \<open>None\<close> when opening or reading
  raises. \<open>pypdf\<close>: for each page of \<open>PyPDF2.PdfReader\<close> its decoded content stream
  (\<open>None\<close> for a page without contents), or the message of the exception raised.
\<close>

record document =
  file_path :: string
  plumber :: "page list option"
  pypdf :: "string + string option list"

text \<open>\<open>file_path.lower().endswith('.pdf')\<close>\<close>

definition is_pdf :: "string \<Rightarrow> bool" where
  "is_pdf p =
     (case rev p of
        f # d # q # dot # _ \<Rightarrow>
          (f = CHR ''f'' \<or> f = CHR ''F'') \<and> (d = CHR ''d'' \<or> d = CHR ''D'') \<and>
          (q = CHR ''p'' \<or> q = CHR ''P'') \<and> dot = CHR ''.''
      | _ \<Rightarrow> False)"

subsection \<open>Signals and reports\<close>

text \<open>The messages the detectors append to \<open>issues\<close>, with the numbers they print.\<close>

datatype issue =
    HiddenText real
  | ExcessiveTinyText real
  | StuffedSkills nat
  | RepetitionPatterns nat
  | InvisibleChars nat
  | ExcessiveWhitespace nat
  | SmallText real
  | VariableFontSizes
  | ExcessiveSkills
  | PoorReadability
  | MissingContact
  | UnrealisticExperience
  | StreamManipulation nat
  | AnalysisFailed

record signal =
  detected :: bool
  risk_score :: real
  issues :: "issue list"
  details_error :: "string option"

text \<open>The dictionary every detector starts from.\<close>

definition empty_signal :: signal where
  "empty_signal = \<lparr>detected = False, risk_score = 0, issues = [], details_error = None\<rparr>"

subsection \<open>White text\<close>

text \<open>\<open>char.get(key, default)\<close>\<close>

definition get_or :: "pyval option \<Rightarrow> pyval \<Rightarrow> pyval" where
  "get_or v d = (case v of None \<Rightarrow> d | Some x \<Rightarrow> x)"

text \<open>\<open>if 'color' in char: ... if self._is_light_color(color)\<close>\<close>

definition light_hit :: "glyph \<Rightarrow> bool" where
  "light_hit g = (case ch_color g of None \<Rightarrow> False | Some c \<Rightarrow> is_light_color c)"

text \<open>
  First loop over the characters of a page: one hit for a light colour, one for a font size
  below 2. The comparison raises on a size that is not a number.
\<close>

fun color_size_hits :: "glyph list \<Rightarrow> nat option" where
  "color_size_hits [] = Some 0"
| "color_size_hits (g # gs) =
     do {
       tiny \<leftarrow> py_lt (get_or (ch_size g) (PNum 12)) 2;
       n \<leftarrow> color_size_hits gs;
       Some ((if light_hit g then 1 else 0) + (if tiny then 1 else 0) + n)
     }"

text \<open>
  Second loop: \<open>x0 < 0 or y0 < 0 or x0 > page_bbox[2] + 50 or y0 > page_bbox[3] + 50\<close>.
\<close>

definition off_page :: "real \<times> real \<times> real \<times> real \<Rightarrow> glyph \<Rightarrow> bool option" where
  "off_page bb g =
     (let x0 = get_or (ch_x0 g) (PNum 0); y0 = get_or (ch_y0 g) (PNum 0)
      in py_or (py_lt x0 0)
          (py_or (py_lt y0 0)
            (py_or (py_gt x0 (fst (snd (snd bb)) + 50))
                   (py_gt y0 (snd (snd (snd bb)) + 50)))))"

fun off_page_hits :: "real \<times> real \<times> real \<times> real \<Rightarrow> glyph list \<Rightarrow> nat option" where
  "off_page_hits bb [] = Some 0"
| "off_page_hits bb (g # gs) =
     do {
       out \<leftarrow> off_page bb g;
       n \<leftarrow> off_page_hits bb gs;
       Some ((if out then 1 else 0) + n)
     }"

text \<open>
  Third loop, over the pairs \<open>i < j\<close> of the page:
  \<open>abs(x1 - x2) < 1 and abs(y1 - y2) < 1 and text1 != text2\<close>.
\<close>

definition overlaps :: "glyph \<Rightarrow> glyph \<Rightarrow> bool option" where
  "overlaps g h =
     py_and (py_near (get_or (ch_x0 g) (PNum 0)) (get_or (ch_x0 h) (PNum 0)) 1)
       (py_and (py_near (get_or (ch_y0 g) (PNum 0)) (get_or (ch_y0 h) (PNum 0)) 1)
          (Some (get_or (ch_text g) (PStr []) \<noteq> get_or (ch_text h) (PStr []))))"

fun overlaps_with :: "glyph \<Rightarrow> glyph list \<Rightarrow> nat option" where
  "overlaps_with g [] = Some 0"
| "overlaps_with g (h # hs) =
     do {
       ov \<leftarrow> overlaps g h;
       n \<leftarrow> overlaps_with g hs;
       Some ((if ov then 1 else 0) + n)
     }"

fun overlapping_count :: "glyph list \<Rightarrow> nat option" where
  "overlapping_count [] = Some 0"
| "overlapping_count (g # gs) =
     do {
       m \<leftarrow> overlaps_with g gs;
       n \<leftarrow> overlapping_count gs;
       Some (m + n)
     }"

text \<open>
  Fourth loop: \<open>if 'bgcolor' in char\<close>, the text colour is \<open>char.get('color', '#000000')\<close>
  and the hit is \<open>bgcolor and self._colors_too_similar(bgcolor, textcolor)\<close>.
\<close>

definition bg_hit :: "glyph \<Rightarrow> bool" where
  "bg_hit g =
     (case ch_bgcolor g of
        None \<Rightarrow> False
      | Some bgcolor \<Rightarrow>
          truthy bgcolor \<and> colors_too_similar bgcolor (get_or (ch_color g) (PStr ''#000000'')))"

text \<open>The suspicious elements one page adds; \<open>None\<close> when one of its loops raises.\<close>

definition page_suspicious :: "page \<Rightarrow> nat option" where
  "page_suspicious p =
     do {
       a \<leftarrow> color_size_hits (chars p);
       b \<leftarrow> off_page_hits (bbox p) (chars p);
       overlapping \<leftarrow> overlapping_count (chars p);
       Some (a + b + (if overlapping > 5 then overlapping else 0)
               + length (filter bg_hit (chars p)))
     }"

text \<open>The loop over the pages: \<open>(suspicious_elements, total_elements)\<close>.\<close>

fun scan_pages :: "page list \<Rightarrow> (nat \<times> nat) option" where
  "scan_pages [] = Some (0, 0)"
| "scan_pages (p # ps) =
     do {
       s \<leftarrow> page_suspicious p;
       rest \<leftarrow> scan_pages ps;
       Some (s + fst rest, length (chars p) + snd rest)
     }"

text \<open>\<open>sum(1 for char in chars if char.get('size', 12) < 3)\<close>\<close>

fun tiny_text_count :: "glyph list \<Rightarrow> nat option" where
  "tiny_text_count [] = Some 0"
| "tiny_text_count (g # gs) =
     do {
       tiny \<leftarrow> py_lt (get_or (ch_size g) (PNum 12)) 3;
       n \<leftarrow> tiny_text_count gs;
       Some ((if tiny then 1 else 0) + n)
     }"

text \<open>
  \<open>_detect_white_text\<close>. After the loop over the pages the variable \<open>chars\<close> still holds
  the characters of the last page, and the count of tiny characters reads it.
\<close>

definition detect_white_text :: "document \<Rightarrow> signal" where
  "detect_white_text doc =
     (if is_pdf (file_path doc) then
        (case plumber doc of
           None \<Rightarrow> empty_signal
         | Some pages \<Rightarrow>
             (case scan_pages pages of
                None \<Rightarrow> empty_signal
              | Some (suspicious_elements, total_elements) \<Rightarrow>
                  if total_elements > 0 then
                    (let white_text_ratio = real suspicious_elements / real total_elements;
                         analysis =
                           (if white_text_ratio > 0.05 then
                              empty_signal\<lparr>detected := True,
                                risk_score := min (white_text_ratio * 3) 1,
                                issues := [HiddenText white_text_ratio]\<rparr>
                            else empty_signal)
                     in case tiny_text_count (chars (last pages)) of
                          None \<Rightarrow> analysis
                        | Some tiny_count \<Rightarrow>
                            (let tiny_text_ratio = real tiny_count / real total_elements
                             in if tiny_text_ratio > 0.1 then
                                  analysis\<lparr>detected := True,
                                    risk_score := max (risk_score analysis) (min (tiny_text_ratio * 2) 1),
                                    issues := issues analysis @ [ExcessiveTinyText tiny_text_ratio]\<rparr>
                                else analysis))
                  else empty_signal))
      else empty_signal)"

subsection \<open>Suspicious formatting\<close>

text \<open>\<open>if char.get('size'): font_sizes.append(char['size'])\<close>, over all pages.\<close>

definition font_sizes :: "page list \<Rightarrow> pyval list" where
  "font_sizes pages =
     concat (map (\<lambda>p. concat (map (\<lambda>g. case ch_size g of
                                           None \<Rightarrow> []
                                         | Some v \<Rightarrow> if truthy v then [v] else []) (chars p))) pages)"

text \<open>
  The statistics (\<open>numpy.var\<close>, \<open>size < 3\<close>) need numbers: with any other entry in the list
  the block raises before it changes the result.
\<close>

fun numbers :: "pyval list \<Rightarrow> real list option" where
  "numbers [] = Some []"
| "numbers (PNum r # vs) = map_option ((#) r) (numbers vs)"
| "numbers (v # vs) = None"

text \<open>\<open>numpy.var\<close>: the mean of the squared deviations from the mean.\<close>

definition np_var :: "real list \<Rightarrow> real" where
  "np_var xs =
     (let mean = sum_list xs / real (length xs)
      in sum_list (map (\<lambda>x. (x - mean)\<^sup>2) xs) / real (length xs))"

definition analyze_suspicious_formatting :: "document \<Rightarrow> signal" where
  "analyze_suspicious_formatting doc =
     (if is_pdf (file_path doc) then
        (case plumber doc of
           None \<Rightarrow> empty_signal
         | Some pages \<Rightarrow>
             (case numbers (font_sizes pages) of
                None \<Rightarrow> empty_signal
              | Some sizes \<Rightarrow>
                  if sizes \<noteq> [] then
                    (let size_variance = (if length sizes > 1 then np_var sizes else 0);
                         tiny_text_ratio =
                           real (length (filter (\<lambda>size. size < 3) sizes)) / real (length sizes);
                         analysis =
                           (if tiny_text_ratio > 0.05 then
                              empty_signal\<lparr>detected := True,
                                risk_score := risk_score empty_signal + 0.3,
                                issues := [SmallText tiny_text_ratio]\<rparr>
                            else empty_signal)
                     in if size_variance > 50 then
                          analysis\<lparr>detected := True,
                            risk_score := risk_score analysis + 0.2,
                            issues := issues analysis @ [VariableFontSizes]\<rparr>
                        else analysis)
                  else empty_signal))
      else empty_signal)"

subsection \<open>Regular expressions\<close>

text \<open>
  Python's \<open>re\<close> is a backtracking matcher. \<open>rmatch r s\<close> lists what can remain of \<open>s\<close>
  after a match of \<open>r\<close> at its start, in the order in which the matcher tries the
  possibilities: the alternatives of \<open>|\<close> from left to right, a repetition \<open>*\<close> with as
  many rounds as possible first. The head of the list is the match \<open>re\<close> reports.
\<close>

datatype 'a rx =
    REps
  | RSym "'a \<Rightarrow> bool"
  | RSeq "'a rx" "'a rx"
  | RAlt "'a rx" "'a rx"
  | RStar "'a rx"

function rmatch :: "'a rx \<Rightarrow> 'a list \<Rightarrow> 'a list list" where
  "rmatch REps s = [s]"
| "rmatch (RSym p) s = (case s of [] \<Rightarrow> [] | c # cs \<Rightarrow> if p c then [cs] else [])"
| "rmatch (RSeq a b) s = concat (map (rmatch b) (rmatch a s))"
| "rmatch (RAlt a b) s = rmatch a s @ rmatch b s"
| "rmatch (RStar a) s =
     concat (map (\<lambda>t. if length t < length s then rmatch (RStar a) t else []) (rmatch a s)) @ [s]"
  by pat_completeness auto
termination
  by (relation "(\<lambda>(r, s). size r) <*mlex*> measure (\<lambda>(r, s). length s)")
     (auto simp: wf_mlex mlex_less mlex_leq)

text \<open>
  \<open>re.findall\<close> for a pattern without groups: the matches from left to right, each search
  starting where the last match ended. No pattern of the detector matches the empty string;
  the branch for an empty match (report it, move on by one character) is there for
  totality.
\<close>

function findall :: "'a rx \<Rightarrow> 'a list \<Rightarrow> 'a list list" where
  "findall r s =
     (case rmatch r s of
        t # ts \<Rightarrow>
          if length t < length s then take (length s - length t) s # findall r t
          else (case s of [] \<Rightarrow> [[]] | c # cs \<Rightarrow> [] # findall r cs)
      | [] \<Rightarrow> (case s of [] \<Rightarrow> [] | c # cs \<Rightarrow> findall r cs))"
  by pat_completeness auto
termination
  by (relation "measure (\<lambda>(r, s). length s)") auto

fun lit :: "'a list \<Rightarrow> 'a rx" where
  "lit [] = REps"
| "lit (c # cs) = RSeq (RSym (\<lambda>x. x = c)) (lit cs)"

definition rplus :: "'a rx \<Rightarrow> 'a rx" where
  "rplus r = RSeq r (RStar r)"

definition ropt :: "'a rx \<Rightarrow> 'a rx" where
  "ropt r = RAlt r REps"

text \<open>
  The classes \<open>\s\<close> and \<open>\d\<close> and a letter under \<open>(?i)\<close>, on the code points below 256 of
  a content stream decoded as latin-1.
\<close>

definition re_s :: "char \<Rightarrow> bool" where
  "re_s c = ((of_char c :: nat) \<in> {9, 10, 11, 12, 13, 28, 29, 30, 31, 32, 133, 160})"

definition re_d :: "char \<Rightarrow> bool" where
  "re_d c = (48 \<le> (of_char c :: nat) \<and> (of_char c :: nat) \<le> 57)"

definition ascii_lower :: "char \<Rightarrow> char" where
  "ascii_lower c =
     (if 65 \<le> (of_char c :: nat) \<and> (of_char c :: nat) \<le> 90
      then char_of ((of_char c :: nat) + 32) else c)"

fun ilit :: "string \<Rightarrow> char rx" where
  "ilit [] = REps"
| "ilit (c # cs) = RSeq (RSym (\<lambda>x. ascii_lower x = c)) (ilit cs)"

subsection \<open>PDF content streams\<close>

text \<open>The alternatives \<open>(?:white|#fff|#ffffff)\<close> and the four \<open>white_font_patterns\<close>.\<close>

definition white_value :: "char rx" where
  "white_value = RAlt (ilit ''white'') (RAlt (ilit ''#fff'') (ilit ''#ffffff''))"

definition white_font_patterns :: "char rx list" where
  "white_font_patterns =
     [ RSeq (RAlt (ilit ''color'') (ilit ''fill''))
         (RSeq (RSym (\<lambda>c. c = CHR '':'' \<or> c = CHR ''=''))
           (RSeq (RStar (RSym re_s))
             (RAlt (ilit ''white'') (RAlt (ilit ''#fff'') (RAlt (ilit ''#ffffff'')
                (ilit ''rgb(255,255,255)'')))))),
       RSeq (ilit ''font-color'')
         (RSeq (RSym (\<lambda>c. c = CHR '':'' \<or> c = CHR ''='')) (RSeq (RStar (RSym re_s)) white_value)),
       RSeq (ilit ''text-color'')
         (RSeq (RSym (\<lambda>c. c = CHR '':'' \<or> c = CHR ''='')) (RSeq (RStar (RSym re_s)) white_value)),
       RSeq (ilit ''style'')
         (RSeq (RStar (RSym (\<lambda>c. c \<noteq> CHR 0x0A)))
           (RSeq (ilit ''color:'') (RSeq (RStar (RSym re_s)) white_value))) ]"

text \<open>\<open>(\d+)\s+Tr\<close>\<close>

definition rendering_mode_rx :: "char rx" where
  "rendering_mode_rx = RSeq (rplus (RSym re_d)) (RSeq (rplus (RSym re_s)) (lit ''Tr''))"

text \<open>\<open>(?:1\s+1\s+1\s+(?:rg|RG))|(?:1\s+g)|(?:1\s+G)\<close>\<close>

definition white_color_rx :: "char rx" where
  "white_color_rx =
     RAlt (RSeq (lit ''1'') (RSeq (rplus (RSym re_s)) (RSeq (lit ''1'') (RSeq (rplus (RSym re_s))
            (RSeq (lit ''1'') (RSeq (rplus (RSym re_s)) (RAlt (lit ''rg'') (lit ''RG''))))))))
       (RAlt (RSeq (lit ''1'') (RSeq (rplus (RSym re_s)) (lit ''g'')))
             (RSeq (lit ''1'') (RSeq (rplus (RSym re_s)) (lit ''G''))))"

text \<open>\<open>(-?\d+(?:\.\d+)?)\s+(-?\d+(?:\.\d+)?)\s+Td\<close>\<close>

definition number_rx :: "char rx" where
  "number_rx =
     RSeq (ropt (lit ''-'')) (RSeq (rplus (RSym re_d)) (ropt (RSeq (lit ''.'') (rplus (RSym re_d)))))"

definition text_position_rx :: "char rx" where
  "text_position_rx =
     RSeq number_rx (RSeq (rplus (RSym re_s)) (RSeq number_rx (RSeq (rplus (RSym re_s)) (lit ''Td''))))"

text \<open>
  The groups of a match, read back from the matched text: the mode of \<open>Tr\<close> is its leading
  digits; the operands of \<open>Td\<close> are its first two blocks of characters that are not white
  space.
\<close>

definition digits_value :: "string \<Rightarrow> nat" where
  "digits_value ds = foldl (\<lambda>n c. 10 * n + ((of_char c :: nat) - 48)) 0 ds"

text \<open>\<open>float(x)\<close> of a matched operand: sign, digits, and digits after a point.\<close>

definition float_of :: "string \<Rightarrow> real" where
  "float_of x =
     (let body = (if x \<noteq> [] \<and> hd x = CHR ''-'' then tl x else x);
          whole = takeWhile re_d body;
          frac = drop 1 (dropWhile re_d body);
          magnitude = real (digits_value whole) + real (digits_value frac) / 10 ^ length frac
      in if x \<noteq> [] \<and> hd x = CHR ''-'' then - magnitude else magnitude)"

definition operands :: "string \<Rightarrow> string \<times> string" where
  "operands m =
     (takeWhile (\<lambda>c. \<not> re_s c) m,
      takeWhile (\<lambda>c. \<not> re_s c) (dropWhile re_s (dropWhile (\<lambda>c. \<not> re_s c) m)))"

definition off_page_text :: "string \<times> string \<Rightarrow> bool" where
  "off_page_text xy =
     (float_of (fst xy) < 0 \<or> float_of (snd xy) < 0 \<or>
      float_of (fst xy) > 1000 \<or> float_of (snd xy) > 1000)"

text \<open>What one page adds to \<open>suspicious_patterns\<close>.\<close>

definition stream_patterns :: "string \<Rightarrow> nat" where
  "stream_patterns content_data =
     sum_list (map (\<lambda>pattern. length (findall pattern content_data)) white_font_patterns)
     + length (filter (\<lambda>mode. digits_value (takeWhile re_d mode) = 3)
                 (findall rendering_mode_rx content_data))
     + (if length (findall white_color_rx content_data) > 5 then 1 else 0)
     + length (filter off_page_text (map operands (findall text_position_rx content_data)))"

definition page_patterns :: "string option \<Rightarrow> nat" where
  "page_patterns contents = (case contents of None \<Rightarrow> 0 | Some content_data \<Rightarrow> stream_patterns content_data)"

definition suspicious_patterns :: "string option list \<Rightarrow> nat" where
  "suspicious_patterns pages = sum_list (map page_patterns pages)"

text \<open>
  \<open>_analyze_pdf_content_streams\<close>. The counter is local until the loop over the pages is
  over, so an exception leaves the result as it was initialised; the handler then stores
  the message under \<open>details["error"]\<close>.
\<close>

definition analyze_pdf_content_streams :: "document \<Rightarrow> signal" where
  "analyze_pdf_content_streams doc =
     (if \<not> is_pdf (file_path doc) then empty_signal
      else
        (case pypdf doc of
           Inl message \<Rightarrow> empty_signal\<lparr>details_error := Some message\<rparr>
         | Inr pages \<Rightarrow>
             if suspicious_patterns pages > 0 then
               empty_signal\<lparr>detected := True,
                 risk_score := min (real (suspicious_patterns pages) * 0.2) 1,
                 issues := [StreamManipulation (suspicious_patterns pages)]\<rparr>
             else empty_signal))"

subsection \<open>Text detectors\<close>

text \<open>
  The extracted text is a sequence of Unicode code points, or a value that is not a string.
  What Python's Unicode database and \<open>textstat\<close> say about a text are tables of the
  \<open>library\<close>: the lower-case form of a character (\<open>str.lower\<close>), the classes \<open>\w\<close> and
  \<open>\s\<close>, the lower-case key under which \<open>re.IGNORECASE\<close> compares a back-reference, and
  the reading-ease score (\<open>None\<close> when \<open>textstat\<close> raises).
\<close>

datatype pytext = Str "nat list" | NotStr

record library =
  flesch_reading_ease :: "pytext \<Rightarrow> real option"
  lower_map :: "nat \<Rightarrow> nat list"
  re_word :: "nat \<Rightarrow> bool"
  re_space :: "nat \<Rightarrow> bool"
  re_lower :: "nat \<Rightarrow> nat"

text \<open>A string literal of the source as code points.\<close>

definition codes :: "string \<Rightarrow> nat list" where
  "codes s = map of_char s"

definition commonly_stuffed_skills :: "nat list list" where
  "commonly_stuffed_skills =
     map codes [''python'', ''java'', ''javascript'', ''react'', ''angular'', ''node.js'',
                ''aws'', ''docker'', ''kubernetes'', ''machine learning'', ''ai'', ''sql'']"

text \<open>\<open>re.findall(r'\b\w+\b', ...)\<close>: the maximal runs of word characters.\<close>

function words_of :: "('a \<Rightarrow> bool) \<Rightarrow> 'a list \<Rightarrow> 'a list list" where
  "words_of w [] = []"
| "words_of w (c # cs) =
     (if w c then (c # takeWhile w cs) # words_of w (dropWhile w cs) else words_of w cs)"
  by pat_completeness auto
termination
  by (relation "measure (\<lambda>(w, s). length s)") (auto simp: length_dropWhile_le less_Suc_eq_le)

text \<open>
  \<open>(.{1,20})\1{3,}\<close> under \<open>re.IGNORECASE\<close>. \<open>copies\<close> counts how often the group follows
  itself; the group is tried with 20 characters first, then with fewer; no character of it
  is a line feed. A match has at least four characters, the first of which is the one the
  search stands at.
\<close>

definition ieq_prefix :: "(nat \<Rightarrow> nat) \<Rightarrow> nat list \<Rightarrow> nat list \<Rightarrow> bool" where
  "ieq_prefix low g s = (length g \<le> length s \<and> map low (take (length g) s) = map low g)"

function copies :: "(nat \<Rightarrow> nat) \<Rightarrow> nat list \<Rightarrow> nat list \<Rightarrow> nat" where
  "copies low g s =
     (if g \<noteq> [] \<and> ieq_prefix low g s then Suc (copies low g (drop (length g) s)) else 0)"
  by pat_completeness auto
termination
  by (relation "measure (\<lambda>(low, g, s). length s)") (auto simp: ieq_prefix_def neq_Nil_conv)

definition group_match :: "(nat \<Rightarrow> nat) \<Rightarrow> nat list \<Rightarrow> nat \<Rightarrow> nat option" where
  "group_match low s n =
     (if 1 \<le> n \<and> n \<le> length s \<and> 10 \<notin> set (take n s) \<and> 3 \<le> copies low (take n s) (drop n s)
      then Some (n * (1 + copies low (take n s) (drop n s))) else None)"

fun longest_group :: "(nat \<Rightarrow> nat) \<Rightarrow> nat list \<Rightarrow> nat \<Rightarrow> nat option" where
  "longest_group low s 0 = None"
| "longest_group low s (Suc n) =
     (case group_match low s (Suc n) of Some m \<Rightarrow> Some m | None \<Rightarrow> longest_group low s n)"

fun repeated_groups :: "(nat \<Rightarrow> nat) \<Rightarrow> nat list \<Rightarrow> nat" where
  "repeated_groups low [] = 0"
| "repeated_groups low (c # cs) =
     (case longest_group low (c # cs) 20 of
        Some m \<Rightarrow> Suc (repeated_groups low (drop (m - 1) cs))
      | None \<Rightarrow> repeated_groups low cs)"

text \<open>
  \<open>\b(\w+)\s+\1\s+\1\b\<close> under \<open>re.IGNORECASE\<close>, at a position that does not follow a word
  character: the word, white space, the word again, white space, the word a third time, and
  a word boundary. A word character is not white space, so a shorter word or less white
  space leads to no other match.
\<close>

definition triple_at :: "library \<Rightarrow> nat list \<Rightarrow> nat option" where
  "triple_at L s =
     (let g = takeWhile (re_word L) s;
          r1 = dropWhile (re_word L) s;
          r2 = dropWhile (re_space L) r1;
          r3 = drop (length g) r2;
          r4 = dropWhile (re_space L) r3;
          r5 = drop (length g) r4
      in if g \<noteq> [] \<and> takeWhile (re_space L) r1 \<noteq> [] \<and> ieq_prefix (re_lower L) g r2
            \<and> takeWhile (re_space L) r3 \<noteq> [] \<and> ieq_prefix (re_lower L) g r4
            \<and> (re_word L (last (take (length g) r4)) \<noteq> (r5 \<noteq> [] \<and> re_word L (hd r5)))
         then Some (length s - length r5) else None)"

text \<open>The search: \<open>after_word\<close> says whether the character before is a word character.\<close>

fun triple_words :: "library \<Rightarrow> bool \<Rightarrow> nat list \<Rightarrow> nat" where
  "triple_words L after_word [] = 0"
| "triple_words L after_word (c # cs) =
     (if after_word then triple_words L (re_word L c) cs
      else
        (case triple_at L (c # cs) of
           Some m \<Rightarrow>
             Suc (triple_words L (re_word L (last (take m (c # cs)))) (drop (m - 1) cs))
         | None \<Rightarrow> triple_words L (re_word L c) cs))"

text \<open>\<open>_detect_keyword_stuffing\<close>; \<open>text.lower()\<close> raises on a value that is not a string.\<close>

definition detect_keyword_stuffing :: "library \<Rightarrow> pytext \<Rightarrow> signal" where
  "detect_keyword_stuffing L text_value =
     (case text_value of
        NotStr \<Rightarrow> empty_signal
      | Str t \<Rightarrow>
          (let ws = words_of (re_word L) (concat (map (lower_map L) t));
               total_words = length ws;
               stuffed_skills =
                 filter (\<lambda>skill.
                    (if total_words > 0 then real (count_list ws skill) / real total_words else 0) > 0.02
                    \<and> count_list ws skill > 5) commonly_stuffed_skills;
               repeated_patterns = repeated_groups (re_lower L) t + triple_words L False t;
               stuffing_indicators = length stuffed_skills + repeated_patterns;
               analysis = empty_signal\<lparr>risk_score := min (real stuffing_indicators * 0.2) 1\<rparr>
           in if stuffed_skills \<noteq> [] \<or> repeated_patterns > 0 then
                analysis\<lparr>detected := True,
                  issues := (if stuffed_skills \<noteq> [] then [StuffedSkills (length stuffed_skills)] else [])
                          @ (if repeated_patterns > 0 then [RepetitionPatterns repeated_patterns] else [])\<rparr>
              else analysis))"

text \<open>
  The class of the zero-width code points U+200B to U+200D, U+2060 and U+FEFF, and the
  pattern for five or more spaces (U+0020).
\<close>

definition zero_width_rx :: "nat rx" where
  "zero_width_rx = RSym (\<lambda>c. (8203 \<le> c \<and> c \<le> 8205) \<or> c = 8288 \<or> c = 65279)"

definition spaces_rx :: "nat rx" where
  "spaces_rx = RSeq (lit [32, 32, 32, 32, 32]) (RStar (RSym (\<lambda>c. c = 32)))"

text \<open>
  \<open>_detect_invisible_characters\<close>. The test \<open>"200" in pattern\<close> holds for the first
  pattern and not for the second, so the first feeds \<open>invisible_chars\<close> and the second
  \<open>excessive_spaces\<close>. \<open>re.findall\<close> raises on a value that is not a string.
\<close>

definition detect_invisible_characters :: "pytext \<Rightarrow> signal" where
  "detect_invisible_characters text_value =
     (case text_value of
        NotStr \<Rightarrow> empty_signal
      | Str t \<Rightarrow>
          (let invisible_chars = length (findall zero_width_rx t);
               excessive_spaces = length (findall spaces_rx t);
               total_indicators = invisible_chars + excessive_spaces
           in if total_indicators > 0 then
                empty_signal\<lparr>detected := True,
                  risk_score := min (real total_indicators * 0.1) 1,
                  issues := (if invisible_chars > 0 then [InvisibleChars invisible_chars] else [])
                          @ (if excessive_spaces > 10 then [ExcessiveWhitespace excessive_spaces] else [])\<rparr>
              else empty_signal))"

subsection \<open>Content authenticity\<close>

text \<open>
  The parsed data is a dictionary of dictionaries. A key of the outer dictionary is
  \<open>Missing\<close>, holds a value that is no dictionary (\<open>Bad\<close>: \<open>.get\<close> on it raises), or holds
  a dictionary, of which the model keeps the entries the detector looks up (\<open>None\<close> for an
  absent key): \<open>all_skills\<close>, \<open>years_experience\<close>, and the pair \<open>email\<close>, \<open>phone\<close>.
\<close>

datatype 'a entry = Missing | Bad | Val 'a

record parsed_data =
  raw_text :: "pytext option"
  skills :: "pyval option entry"
  experience :: "pyval option entry"
  contact_info :: "(pyval option \<times> pyval option) entry"

text \<open>\<open>len(x)\<close>\<close>

fun py_len :: "pyval \<Rightarrow> nat option" where
  "py_len (PStr s) = Some (length s)"
| "py_len (PSeq xs) = Some (length xs)"
| "py_len v = None"

text \<open>\<open>len(parsed_data.get("skills", {}).get("all_skills", []))\<close>\<close>

definition skill_count :: "parsed_data \<Rightarrow> nat option" where
  "skill_count pd =
     (case skills pd of
        Missing \<Rightarrow> Some 0
      | Bad \<Rightarrow> None
      | Val None \<Rightarrow> Some 0
      | Val (Some v) \<Rightarrow> py_len v)"

text \<open>\<open>parsed_data.get("experience", {}).get("years_experience", 0)\<close>\<close>

definition experience_years :: "parsed_data \<Rightarrow> pyval option" where
  "experience_years pd =
     (case experience pd of
        Missing \<Rightarrow> Some (PNum 0)
      | Bad \<Rightarrow> None
      | Val None \<Rightarrow> Some (PNum 0)
      | Val (Some v) \<Rightarrow> Some v)"

text \<open>\<open>not d.get(key)\<close>\<close>

definition falsy :: "pyval option \<Rightarrow> bool" where
  "falsy v = (case v of None \<Rightarrow> True | Some x \<Rightarrow> \<not> truthy x)"

text \<open>
  \<open>_analyze_content_authenticity\<close>. The lookups and the first comparison of
  \<open>experience_years\<close> come before any change of the result, so an exception there returns
  the initial dictionary. \<open>contact_info.get\<close> comes after the first two flags: when it
  raises, the handler returns the dictionary with the score raised so far, \<open>detected\<close> and
  \<open>issues\<close> still unset.
\<close>

definition analyze_content_authenticity :: "library \<Rightarrow> parsed_data \<Rightarrow> signal" where
  "analyze_content_authenticity L pd =
     (case raw_text pd of
        None \<Rightarrow> empty_signal
      | Some text_value \<Rightarrow>
     (case flesch_reading_ease L text_value of
        None \<Rightarrow> empty_signal
      | Some readability_score \<Rightarrow>
     (case skill_count pd of
        None \<Rightarrow> empty_signal
      | Some n_skills \<Rightarrow>
     (case experience_years pd of
        Some (PNum years) \<Rightarrow>
          (let flags1 = (if years < 2 \<and> n_skills > 20 then [ExcessiveSkills] else []);
               score1 = (if years < 2 \<and> n_skills > 20 then 0.3 else 0);
               flags2 = flags1 @ (if readability_score < 30 then [PoorReadability] else []);
               score2 = score1 + (if readability_score < 30 then 0.2 else 0)
           in case contact_info pd of
                Bad \<Rightarrow> empty_signal\<lparr>risk_score := score2\<rparr>
              | Missing \<Rightarrow>
                  (let flags4 = flags2 @ [MissingContact]
                                @ (if years > 50 then [UnrealisticExperience] else []);
                       score4 = score2 + 0.1 + (if years > 50 then 0.4 else 0)
                   in \<lparr>detected = True, risk_score = score4, issues = flags4,
                        details_error = None\<rparr>)
              | Val (email, phone) \<Rightarrow>
                  (let flags3 = flags2 @ (if falsy email \<and> falsy phone then [MissingContact] else []);
                       score3 = score2 + (if falsy email \<and> falsy phone then 0.1 else 0);
                       flags4 = flags3 @ (if years > 50 then [UnrealisticExperience] else []);
                       score4 = score3 + (if years > 50 then 0.4 else 0)
                   in \<lparr>detected = (flags4 \<noteq> []), risk_score = score4, issues = flags4,
                        details_error = None\<rparr>))
      | _ \<Rightarrow> empty_signal))))"

subsection \<open>The aggregation\<close>

record report =
  overall_risk_score :: real
  risk_level :: string
  detected_issues :: "issue list"
  detailed_analysis :: "(string \<times> signal) list"

text \<open>
  \<open>analyze\<close>. \<open>parsed_data["raw_text"]\<close> raises \<open>KeyError\<close> when the key is missing; the
  handler of \<open>analyze\<close> then returns the fallback report. Nothing else in the body raises:
  each detector catches its own exceptions. The dictionary \<open>detailed_analysis\<close> keeps the
  order in which its keys are written.
\<close>

definition analyze :: "library \<Rightarrow> document \<Rightarrow> parsed_data \<Rightarrow> report" where
  "analyze L doc pd =
     (case raw_text pd of
        None \<Rightarrow>
          \<lparr>overall_risk_score = 0, risk_level = ''unknown'',
           detected_issues = [AnalysisFailed], detailed_analysis = []\<rparr>
      | Some text_value \<Rightarrow>
          (let white_text_analysis = detect_white_text doc;
               keyword_stuffing_analysis = detect_keyword_stuffing L text_value;
               invisible_chars_analysis = detect_invisible_characters text_value;
               formatting_analysis = analyze_suspicious_formatting doc;
               content_analysis = analyze_content_authenticity L pd;
               pdf_stream_analysis = analyze_pdf_content_streams doc;
               detailed =
                 [(''white_text'', white_text_analysis),
                  (''keyword_stuffing'', keyword_stuffing_analysis),
                  (''invisible_characters'', invisible_chars_analysis),
                  (''suspicious_formatting'', formatting_analysis),
                  (''content_authenticity'', content_analysis),
                  (''pdf_stream_analysis'', pdf_stream_analysis)];
               risk_scores =
                 [risk_score white_text_analysis, risk_score keyword_stuffing_analysis,
                  risk_score invisible_chars_analysis, risk_score formatting_analysis,
                  risk_score content_analysis, risk_score pdf_stream_analysis];
               overall = sum_list risk_scores / real (length risk_scores)
           in \<lparr>overall_risk_score = overall,
               risk_level =
                 (if overall \<ge> 0.7 then ''high'' else if overall \<ge> 0.4 then ''medium'' else ''low''),
               detected_issues =
                 concat (map (\<lambda>(category, details). if detected details then issues details else [])
                           detailed),
               detailed_analysis = detailed\<rparr>))"

subsection \<open>Sample inputs\<close>

text \<open>
  Tables that cover the ASCII characters, with a fixed answer of \<open>textstat\<close>, and small
  inputs on which the theorems below are evaluated.
\<close>

definition ascii_library :: "real option \<Rightarrow> library" where
  "ascii_library r =
     \<lparr>flesch_reading_ease = (\<lambda>t. r),
      lower_map = (\<lambda>c. [if 65 \<le> c \<and> c \<le> 90 then c + 32 else c]),
      re_word = (\<lambda>c. (48 \<le> c \<and> c \<le> 57) \<or> (65 \<le> c \<and> c \<le> 90) \<or> c = 95 \<or> (97 \<le> c \<and> c \<le> 122)),
      re_space = (\<lambda>c. (9 \<le> c \<and> c \<le> 13) \<or> (28 \<le> c \<and> c \<le> 32)),
      re_lower = (\<lambda>c. if 65 \<le> c \<and> c \<le> 90 then c + 32 else c)\<rparr>"

definition blank_document :: document where
  "blank_document = \<lparr>file_path = ''cv.pdf'', plumber = Some [], pypdf = Inr []\<rparr>"

definition parsed_without_text :: parsed_data where
  "parsed_without_text =
     \<lparr>raw_text = None, skills = Missing, experience = Missing, contact_info = Missing\<rparr>"

definition parsed_with_contact :: parsed_data where
  "parsed_with_contact =
     \<lparr>raw_text = Some (Str []), skills = Val (Some (PSeq [])),
      experience = Val (Some (PNum 0)),
      contact_info = Val (Some (PStr ''a@b.org''), None)\<rparr>"

definition sample_library :: library where
  "sample_library = ascii_library (Some 206.835)"

definition stream_document :: document where
  "stream_document =
     \<lparr>file_path = ''cv.pdf'', plumber = Some [], pypdf = Inr [Some ''BT 3 Tr ET'']\<rparr>"

definition broken_document :: document where
  "broken_document =
     \<lparr>file_path = ''cv.pdf'', plumber = None, pypdf = Inl ''EOF marker not found''\<rparr>"

definition parsed_empty :: parsed_data where
  "parsed_empty =
     \<lparr>raw_text = Some (Str []), skills = Val (Some (PSeq [])),
      experience = Val (Some (PNum 0)), contact_info = Val (None, None)\<rparr>"

definition parsed_bad_contact :: parsed_data where
  "parsed_bad_contact =
     \<lparr>raw_text = Some (Str []),
      skills = Val (Some (PSeq (map PStr
        [''python'', ''java'', ''c'', ''go'', ''rust'', ''sql'', ''aws'', ''docker'', ''react'',
         ''angular'', ''vue'', ''django'', ''flask'', ''spring'', ''git'', ''linux'', ''html'',
         ''css'', ''scala'', ''ruby'', ''perl'']))),
      experience = Val (Some (PNum 0)), contact_info = Bad\<rparr>"

definition glyph_without_color :: glyph where
  "glyph_without_color =
     \<lparr>ch_color = None, ch_size = Some (PNum 12), ch_x0 = Some (PNum 72),
      ch_y0 = Some (PNum 700), ch_text = Some (PStr ''a''),
      ch_bgcolor = Some (PStr ''#000000'')\<rparr>"

definition glyph_short_color :: glyph where
  "glyph_short_color =
     \<lparr>ch_color = Some (PStr ''#fff''), ch_size = Some (PNum 12), ch_x0 = Some (PNum 72),
      ch_y0 = Some (PNum 700), ch_text = Some (PStr ''a''),
      ch_bgcolor = Some (PStr ''#ffffff'')\<rparr>"

definition plain_glyph :: glyph where
  "plain_glyph =
     \<lparr>ch_color = Some (PStr ''#000000''), ch_size = Some (PNum 12), ch_x0 = Some (PNum 72),
      ch_y0 = Some (PNum 700), ch_text = Some (PStr ''a''), ch_bgcolor = None\<rparr>"

definition small_glyph :: glyph where
  "small_glyph = plain_glyph\<lparr>ch_size := Some (PNum 2.5)\<rparr>"

definition minute_glyph :: glyph where
  "minute_glyph = plain_glyph\<lparr>ch_size := Some (PNum 1)\<rparr>"

definition small_print_document :: document where
  "small_print_document =
     \<lparr>file_path = ''cv.pdf'',
      plumber = Some [\<lparr>chars = small_glyph # replicate 9 plain_glyph, bbox = (0, 0, 612, 792)\<rparr>],
      pypdf = Inr []\<rparr>"

definition minute_print_document :: document where
  "minute_print_document =
     \<lparr>file_path = ''cv.pdf'',
      plumber = Some [\<lparr>chars = [minute_glyph, plain_glyph], bbox = (0, 0, 612, 792)\<rparr>],
      pypdf = Inr []\<rparr>"

section \<open>Properties\<close>

subsection \<open>Auxiliary facts\<close>

lemma empty_signal_simps:
  "detected empty_signal = False" "risk_score empty_signal = 0" "issues empty_signal = []"
  "details_error empty_signal = None"
  by (simp_all add: empty_signal_def)

lemma white_text_bounds:
  "0 \<le> risk_score (detect_white_text doc) \<and> risk_score (detect_white_text doc) \<le> 1"
  by (auto simp: detect_white_text_def empty_signal_simps Let_def min_def max_def
           split: option.splits prod.splits)

lemma keyword_stuffing_bounds:
  "0 \<le> risk_score (detect_keyword_stuffing L t) \<and> risk_score (detect_keyword_stuffing L t) \<le> 1"
  by (auto simp: detect_keyword_stuffing_def empty_signal_simps Let_def min_def
           split: pytext.splits)

lemma invisible_characters_bounds:
  "0 \<le> risk_score (detect_invisible_characters t) \<and> risk_score (detect_invisible_characters t) \<le> 1"
  by (auto simp: detect_invisible_characters_def empty_signal_simps Let_def min_def
           split: pytext.splits)

lemma formatting_bounds:
  "0 \<le> risk_score (analyze_suspicious_formatting doc) \<and>
   risk_score (analyze_suspicious_formatting doc) \<le> 1"
  by (auto simp: analyze_suspicious_formatting_def empty_signal_simps Let_def
           split: option.splits)

lemma content_authenticity_bounds:
  "0 \<le> risk_score (analyze_content_authenticity L pd) \<and>
   risk_score (analyze_content_authenticity L pd) \<le> 1"
  by (auto simp: analyze_content_authenticity_def empty_signal_simps Let_def
           split: option.splits pyval.splits entry.splits prod.splits)

lemma content_streams_bounds:
  "0 \<le> risk_score (analyze_pdf_content_streams doc) \<and>
   risk_score (analyze_pdf_content_streams doc) \<le> 1"
  by (auto simp: analyze_pdf_content_streams_def empty_signal_simps min_def
           split: sum.splits)

lemma analyze_fallback:
  "raw_text pd = None \<Longrightarrow>
   analyze L doc pd =
     \<lparr>overall_risk_score = 0, risk_level = ''unknown'',
      detected_issues = [AnalysisFailed], detailed_analysis = []\<rparr>"
  by (simp add: analyze_def)

lemma analyze_overall:
  "raw_text pd = Some t \<Longrightarrow>
   overall_risk_score (analyze L doc pd) =
     (risk_score (detect_white_text doc) + risk_score (detect_keyword_stuffing L t)
      + risk_score (detect_invisible_characters t) + risk_score (analyze_suspicious_formatting doc)
      + risk_score (analyze_content_authenticity L pd)
      + risk_score (analyze_pdf_content_streams doc)) / 6"
  by (simp add: analyze_def Let_def)

lemma analyze_level:
  "raw_text pd = Some t \<Longrightarrow>
   risk_level (analyze L doc pd) =
     (if overall_risk_score (analyze L doc pd) \<ge> 0.7 then ''high''
      else if overall_risk_score (analyze L doc pd) \<ge> 0.4 then ''medium'' else ''low'')"
  by (simp add: analyze_def Let_def)

lemma analyze_detailed:
  "raw_text pd = Some t \<Longrightarrow>
   detailed_analysis (analyze L doc pd) =
     [(''white_text'', detect_white_text doc),
      (''keyword_stuffing'', detect_keyword_stuffing L t),
      (''invisible_characters'', detect_invisible_characters t),
      (''suspicious_formatting'', analyze_suspicious_formatting doc),
      (''content_authenticity'', analyze_content_authenticity L pd),
      (''pdf_stream_analysis'', analyze_pdf_content_streams doc)]"
  by (simp add: analyze_def Let_def)

lemma analyze_issues:
  "raw_text pd = Some t \<Longrightarrow>
   detected_issues (analyze L doc pd) =
     concat (map (\<lambda>s. if detected s then issues s else [])
       [detect_white_text doc, detect_keyword_stuffing L t, detect_invisible_characters t,
        analyze_suspicious_formatting doc, analyze_content_authenticity L pd,
        analyze_pdf_content_streams doc])"
  by (simp add: analyze_def Let_def)

lemma formatting_sharp:
  "risk_score (analyze_suspicious_formatting doc) \<le> 1 / 2"
  by (auto simp: analyze_suspicious_formatting_def empty_signal_simps Let_def
           split: option.splits)

lemma content_authenticity_sharp:
  "risk_score (analyze_content_authenticity L pd) \<le> 7 / 10"
  by (auto simp: analyze_content_authenticity_def empty_signal_simps Let_def
           split: option.splits pyval.splits entry.splits prod.splits)

subsection \<open>Bounds of the scores\<close>

text \<open>
  Claim C1. The overall score of every report and the score of each signal in it lie
  between 0 and 1. The two signals that add up bonuses cannot leave the interval either:
  the formatting score is at most 0.3 + 0.2, and of the four bonuses of the content
  score the first needs less than 2 years of experience and the last more than 50, so at
  most 0.2 + 0.1 + 0.4 are added.
\<close>

theorem risk_scores_in_unit_interval:
  "0 \<le> overall_risk_score (analyze L doc pd) \<and> overall_risk_score (analyze L doc pd) \<le> 1 \<and>
   list_all (\<lambda>(name, s). 0 \<le> risk_score s \<and> risk_score s \<le> 1)
     (detailed_analysis (analyze L doc pd)) \<and>
   risk_score (analyze_suspicious_formatting doc) \<le> 1 / 2 \<and>
   risk_score (analyze_content_authenticity L pd) \<le> 7 / 10"
proof (cases "raw_text pd")
  case None
  then show ?thesis
    using formatting_sharp [of doc] content_authenticity_sharp [of L pd]
    by (simp add: analyze_fallback)
next
  case (Some t)
  note b = white_text_bounds [of doc] keyword_stuffing_bounds [of L t]
    invisible_characters_bounds [of t] formatting_bounds [of doc]
    content_authenticity_bounds [of L pd] content_streams_bounds [of doc]
  have "0 \<le> overall_risk_score (analyze L doc pd)" "overall_risk_score (analyze L doc pd) \<le> 1"
    using b by (simp_all add: analyze_overall [OF Some])
  moreover have "list_all (\<lambda>(name, s). 0 \<le> risk_score s \<and> risk_score s \<le> 1)
     (detailed_analysis (analyze L doc pd))"
    using b by (simp add: analyze_detailed [OF Some])
  ultimately show ?thesis
    using formatting_sharp [of doc] content_authenticity_sharp [of L pd] by simp
qed

theorem risk_scores_in_unit_interval_witness:
  "length (detailed_analysis (analyze (ascii_library (Some 50)) blank_document parsed_with_contact)) = 6 \<and>
   list_all (\<lambda>(name, s). 0 \<le> risk_score s \<and> risk_score s \<le> 1)
     (detailed_analysis (analyze (ascii_library (Some 50)) blank_document parsed_with_contact)) \<and>
   overall_risk_score (analyze (ascii_library (Some 50)) blank_document parsed_with_contact) \<le> 1"
proof -
  have t: "raw_text parsed_with_contact = Some (Str [])"
    by (simp add: parsed_with_contact_def)
  show ?thesis
    using risk_scores_in_unit_interval [of "ascii_library (Some 50)" blank_document parsed_with_contact]
    by (simp add: analyze_detailed [OF t])
qed

subsection \<open>Evaluation on the sample inputs\<close>

lemma raw_text_with_contact: "raw_text parsed_with_contact = Some (Str [])"
  by (simp add: parsed_with_contact_def)

lemma raw_text_without_text: "raw_text parsed_without_text = None"
  by (simp add: parsed_without_text_def)

lemma blank_white_text: "detect_white_text blank_document = empty_signal"
  by (simp add: detect_white_text_def blank_document_def)

lemma blank_formatting: "analyze_suspicious_formatting blank_document = empty_signal"
  by (simp add: analyze_suspicious_formatting_def blank_document_def font_sizes_def)

lemma blank_streams: "analyze_pdf_content_streams blank_document = empty_signal"
  by (simp add: analyze_pdf_content_streams_def blank_document_def suspicious_patterns_def)

lemma empty_text_invisible: "detect_invisible_characters (Str []) = empty_signal"
  by (simp add: detect_invisible_characters_def zero_width_rx_def spaces_rx_def)

lemma with_contact_content:
  "analyze_content_authenticity (ascii_library (Some 50)) parsed_with_contact = empty_signal"
  by (simp add: analyze_content_authenticity_def parsed_with_contact_def ascii_library_def
      skill_count_def experience_years_def falsy_def empty_signal_def)

lemma count_list_Nil_filter: "filter (\<lambda>skill. P skill \<and> count_list [] skill > (5::nat)) xs = []"
  by (induction xs) auto

lemma empty_text_keywords: "detect_keyword_stuffing L (Str []) = empty_signal"
  by (simp add: detect_keyword_stuffing_def empty_signal_def count_list_Nil_filter)

lemma blank_overall:
  "overall_risk_score (analyze (ascii_library (Some 50)) blank_document parsed_with_contact) = 0"
  by (simp add: analyze_overall [OF raw_text_with_contact] blank_white_text blank_formatting
      blank_streams empty_text_keywords empty_text_invisible with_contact_content
      empty_signal_simps)

subsection \<open>The risk level\<close>

text \<open>
  Claim C6, as amended. When the parsed data has the key \<open>raw_text\<close>, the report holds
  all six signals, in their fixed order, and its risk level is one of \<open>low\<close>,
  \<open>medium\<close>, \<open>high\<close>. When the key is missing, the handler of \<open>analyze\<close> itself
  returns the fallback report: score 0, level \<open>unknown\<close>, the one issue
  \<open>Analysis failed\<close> and no signal. The claim as stated (for every input the level is one
  of the three) fails on that input.
\<close>

theorem risk_level_values:
  "(case raw_text pd of
      None \<Rightarrow>
        analyze L doc pd =
          \<lparr>overall_risk_score = 0, risk_level = ''unknown'',
           detected_issues = [AnalysisFailed], detailed_analysis = []\<rparr>
    | Some t \<Rightarrow>
        risk_level (analyze L doc pd) \<in> {''low'', ''medium'', ''high''} \<and>
        map fst (detailed_analysis (analyze L doc pd)) =
          [''white_text'', ''keyword_stuffing'', ''invisible_characters'',
           ''suspicious_formatting'', ''content_authenticity'', ''pdf_stream_analysis''])"
  by (simp add: analyze_fallback analyze_level analyze_detailed split: option.split)

theorem risk_level_values_witness:
  "risk_level (analyze (ascii_library (Some 50)) blank_document parsed_with_contact) = ''low'' \<and>
   length (detailed_analysis (analyze (ascii_library (Some 50)) blank_document parsed_with_contact)) = 6"
  using risk_level_values [where pd = parsed_with_contact and L = "ascii_library (Some 50)"
      and doc = blank_document]
  by (simp add: raw_text_with_contact analyze_level [OF raw_text_with_contact] blank_overall
      analyze_detailed [OF raw_text_with_contact])

theorem risk_level_unknown_counterexample:
  "risk_level (analyze (ascii_library (Some 50)) blank_document parsed_without_text) = ''unknown''"
  by (simp add: analyze_fallback [OF raw_text_without_text])

text \<open>
  Claim C3, as amended. In every analysis that does not end in the fallback report, the
  level is \<open>high\<close> from 0.7 on, \<open>medium\<close> from 0.4 up to 0.7 and \<open>low\<close> below 0.4,
  and two such analyses with the same overall score have the same level. Across all
  reports the level is not a function of the score: the fallback report has score 0 and
  level \<open>unknown\<close>, a normal report with score 0 has level \<open>low\<close>.
\<close>

theorem risk_level_thresholds:
  assumes "raw_text pd = Some t" and "raw_text pd' = Some t'"
  shows "(overall_risk_score (analyze L doc pd) \<ge> 0.7 \<longrightarrow> risk_level (analyze L doc pd) = ''high'') \<and>
     (0.4 \<le> overall_risk_score (analyze L doc pd) \<and> overall_risk_score (analyze L doc pd) < 0.7
        \<longrightarrow> risk_level (analyze L doc pd) = ''medium'') \<and>
     (overall_risk_score (analyze L doc pd) < 0.4 \<longrightarrow> risk_level (analyze L doc pd) = ''low'') \<and>
     (overall_risk_score (analyze L doc pd) = overall_risk_score (analyze L' doc' pd')
        \<longrightarrow> risk_level (analyze L doc pd) = risk_level (analyze L' doc' pd'))"
  using assms by (simp add: analyze_level)

theorem risk_level_thresholds_witness:
  "raw_text parsed_with_contact = Some (Str []) \<and>
   overall_risk_score (analyze (ascii_library (Some 50)) blank_document parsed_with_contact) < 0.4 \<and>
   risk_level (analyze (ascii_library (Some 50)) blank_document parsed_with_contact) = ''low''"
  using risk_level_thresholds [OF raw_text_with_contact raw_text_with_contact,
      where L = "ascii_library (Some 50)" and doc = blank_document
        and L' = "ascii_library (Some 50)" and doc' = blank_document]
  by (simp add: raw_text_with_contact blank_overall)

theorem risk_level_not_function_counterexample:
  "overall_risk_score (analyze (ascii_library (Some 50)) blank_document parsed_without_text) =
     overall_risk_score (analyze (ascii_library (Some 50)) blank_document parsed_with_contact) \<and>
   risk_level (analyze (ascii_library (Some 50)) blank_document parsed_without_text) = ''unknown'' \<and>
   risk_level (analyze (ascii_library (Some 50)) blank_document parsed_with_contact) = ''low''"
  by (simp add: analyze_fallback [OF raw_text_without_text] blank_overall
      analyze_level [OF raw_text_with_contact])

subsection \<open>The detected issues\<close>

text \<open>
  Claim C8, as amended. In every analysis that does not end in the fallback report, the
  issues of the report are the issues of the signals with \<open>detected\<close> set, concatenated
  in the order white text, keyword stuffing, invisible characters, formatting, content
  authenticity, content stream; so their number is the sum of the lengths of those lists.
  The fallback report has no signal and still the issue \<open>Analysis failed\<close>.
\<close>

theorem detected_issues_concatenation:
  assumes "raw_text pd = Some t"
  shows "detected_issues (analyze L doc pd) =
     concat (map issues (filter detected
       [detect_white_text doc, detect_keyword_stuffing L t, detect_invisible_characters t,
        analyze_suspicious_formatting doc, analyze_content_authenticity L pd,
        analyze_pdf_content_streams doc])) \<and>
   length (detected_issues (analyze L doc pd)) =
     sum_list (map (\<lambda>s. length (issues s)) (filter detected
       [detect_white_text doc, detect_keyword_stuffing L t, detect_invisible_characters t,
        analyze_suspicious_formatting doc, analyze_content_authenticity L pd,
        analyze_pdf_content_streams doc])) \<and>
   map snd (detailed_analysis (analyze L doc pd)) =
       [detect_white_text doc, detect_keyword_stuffing L t, detect_invisible_characters t,
        analyze_suspicious_formatting doc, analyze_content_authenticity L pd,
        analyze_pdf_content_streams doc]"
  by (simp add: analyze_issues [OF assms] analyze_detailed [OF assms])

theorem detected_issues_fallback_counterexample:
  "detailed_analysis (analyze (ascii_library (Some 50)) blank_document parsed_without_text) = [] \<and>
   detected_issues (analyze (ascii_library (Some 50)) blank_document parsed_without_text)
     = [AnalysisFailed]"
  by (simp add: analyze_fallback [OF raw_text_without_text])

subsection \<open>The empty document\<close>

lemma stream_patterns_Nil: "stream_patterns [] = 0"
  by (simp add: stream_patterns_def white_font_patterns_def white_value_def
      rendering_mode_rx_def white_color_rx_def number_rx_def text_position_rx_def
      rplus_def ropt_def)

lemma scan_pages_no_glyphs:
  "list_all (\<lambda>p. chars p = []) pages \<Longrightarrow> scan_pages pages = Some (0, 0)"
  by (induction pages) (simp_all add: page_suspicious_def)

lemma font_sizes_no_glyphs:
  "list_all (\<lambda>p. chars p = []) pages \<Longrightarrow> font_sizes pages = []"
  by (induction pages) (simp_all add: font_sizes_def)

lemma suspicious_patterns_empty:
  "list_all (\<lambda>s. s = None \<or> s = Some []) streams \<Longrightarrow> suspicious_patterns streams = 0"
  by (induction streams) (auto simp: suspicious_patterns_def page_patterns_def stream_patterns_Nil)

lemma raw_text_parsed_empty: "raw_text parsed_empty = Some (Str [])"
  by (simp add: parsed_empty_def)

lemma content_parsed_empty:
  "analyze_content_authenticity L parsed_empty =
     (case flesch_reading_ease L (Str []) of
        None \<Rightarrow> empty_signal
      | Some r \<Rightarrow>
          \<lparr>detected = True, risk_score = (if r < 30 then 0.3 else 0.1),
           issues = (if r < 30 then [PoorReadability] else []) @ [MissingContact],
           details_error = None\<rparr>)"
  by (simp add: analyze_content_authenticity_def parsed_empty_def skill_count_def
      experience_years_def falsy_def split: option.split)

text \<open>
  Claim C4, as amended. Take a document without characters and with empty content
  streams, the empty text and the parsed fields of an empty text (no skills, 0 years of
  experience, no e-mail address and no phone number). Then five signals are the initial
  dictionary (not detected, score 0, no issue). The content signal is not: as soon as
  \<open>textstat\<close> returns a score \<open>r\<close> for the empty text, the missing contact
  information is a red flag, so the signal is detected with score 0.1 (0.3 and a second
  flag when \<open>r < 30\<close>); it is the initial dictionary only when \<open>textstat\<close> raises. The
  overall score is a sixth of the content score and the level is \<open>low\<close>.
\<close>

theorem empty_document_report:
  assumes "plumber doc = Some pages" and "list_all (\<lambda>p. chars p = []) pages"
    and "pypdf doc = Inr streams" and "list_all (\<lambda>s. s = None \<or> s = Some []) streams"
  shows "detect_white_text doc = empty_signal \<and>
     detect_keyword_stuffing L (Str []) = empty_signal \<and>
     detect_invisible_characters (Str []) = empty_signal \<and>
     analyze_suspicious_formatting doc = empty_signal \<and>
     analyze_pdf_content_streams doc = empty_signal \<and>
     analyze_content_authenticity L parsed_empty =
       (case flesch_reading_ease L (Str []) of
          None \<Rightarrow> empty_signal
        | Some r \<Rightarrow>
            \<lparr>detected = True, risk_score = (if r < 30 then 0.3 else 0.1),
             issues = (if r < 30 then [PoorReadability] else []) @ [MissingContact],
             details_error = None\<rparr>) \<and>
     overall_risk_score (analyze L doc parsed_empty) =
       risk_score (analyze_content_authenticity L parsed_empty) / 6 \<and>
     risk_level (analyze L doc parsed_empty) = ''low''"
proof -
  have w: "detect_white_text doc = empty_signal"
    using assms by (simp add: detect_white_text_def scan_pages_no_glyphs)
  have f: "analyze_suspicious_formatting doc = empty_signal"
    using assms by (simp add: analyze_suspicious_formatting_def font_sizes_no_glyphs)
  have s: "analyze_pdf_content_streams doc = empty_signal"
    using assms by (simp add: analyze_pdf_content_streams_def suspicious_patterns_empty)
  have o: "overall_risk_score (analyze L doc parsed_empty) =
       risk_score (analyze_content_authenticity L parsed_empty) / 6"
    by (simp add: analyze_overall [OF raw_text_parsed_empty] w f s empty_text_keywords
        empty_text_invisible empty_signal_simps)
  have "risk_score (analyze_content_authenticity L parsed_empty) \<le> 7 / 10"
    by (rule content_authenticity_sharp)
  then have l: "risk_level (analyze L doc parsed_empty) = ''low''"
    by (simp add: analyze_level [OF raw_text_parsed_empty] o)
  show ?thesis
    using w f s o l by (simp add: empty_text_keywords empty_text_invisible content_parsed_empty)
qed

theorem empty_document_report_witness:
  "detect_white_text blank_document = empty_signal \<and>
   analyze_content_authenticity sample_library parsed_empty =
     \<lparr>detected = True, risk_score = 0.1, issues = [MissingContact], details_error = None\<rparr> \<and>
   risk_level (analyze sample_library blank_document parsed_empty) = ''low''"
  using empty_document_report [where doc = blank_document and pages = "[]" and streams = "[]"
      and L = sample_library]
  by (simp add: blank_document_def sample_library_def ascii_library_def)

theorem empty_document_counterexample:
  "detected (analyze_content_authenticity sample_library parsed_empty) \<and>
   overall_risk_score (analyze sample_library blank_document parsed_empty) = 1 / 60"
  by (simp add: analyze_overall [OF raw_text_parsed_empty] blank_white_text blank_formatting
      blank_streams empty_text_keywords empty_text_invisible empty_signal_simps
      content_parsed_empty sample_library_def ascii_library_def)

text \<open>A witness for claim C8: a report that concatenates the issues of two signals.\<close>

lemma is_pdf_cv: "is_pdf ''cv.pdf''"
  by (simp add: is_pdf_def)

lemma stream_document_patterns: "suspicious_patterns [Some ''BT 3 Tr ET''] = 1"
  by code_simp

lemma stream_document_signal:
  "analyze_pdf_content_streams stream_document =
     \<lparr>detected = True, risk_score = 0.2, issues = [StreamManipulation 1], details_error = None\<rparr>"
  by (simp add: analyze_pdf_content_streams_def stream_document_def stream_document_patterns
      empty_signal_def is_pdf_cv)

theorem detected_issues_concatenation_witness:
  "raw_text parsed_empty = Some (Str []) \<and>
   detected_issues (analyze sample_library stream_document parsed_empty)
     = [MissingContact, StreamManipulation 1]"
  using detected_issues_concatenation [OF raw_text_parsed_empty,
      where L = sample_library and doc = stream_document]
  by (simp add: raw_text_parsed_empty stream_document_signal content_parsed_empty
      empty_text_keywords empty_text_invisible empty_signal_simps sample_library_def ascii_library_def)
    (simp add: detect_white_text_def analyze_suspicious_formatting_def stream_document_def
      font_sizes_def empty_signal_simps)

subsection \<open>Failing detectors\<close>

lemma raw_text_bad_contact: "raw_text parsed_bad_contact = Some (Str [])"
  by (simp add: parsed_bad_contact_def)

lemma content_bad_contact:
  "analyze_content_authenticity sample_library parsed_bad_contact =
     empty_signal\<lparr>risk_score := 0.3\<rparr>"
  by (simp add: analyze_content_authenticity_def parsed_bad_contact_def sample_library_def ascii_library_def
      skill_count_def experience_years_def)

lemma contact_info_bad_contact: "contact_info parsed_bad_contact = Bad"
  by (simp add: parsed_bad_contact_def)

text \<open>
  Claim C2 is not met by the code on the following input: 21 skills, 0 years of
  experience, and \<open>contact_info\<close> holding \<open>None\<close> instead of a dictionary. The content
  detector adds 0.3 for the skills, then raises at \<open>contact_info.get\<close>; its handler
  returns the dictionary as it is by then. The failed detector enters the mean with
  0.3, not with 0.
\<close>

theorem failed_content_detector_scores:
  "contact_info parsed_bad_contact = Bad \<and>
   risk_score (analyze_content_authenticity sample_library parsed_bad_contact) = 0.3 \<and>
   detected (analyze_content_authenticity sample_library parsed_bad_contact) = False \<and>
   issues (analyze_content_authenticity sample_library parsed_bad_contact) = [] \<and>
   overall_risk_score (analyze sample_library blank_document parsed_bad_contact)
     = 1 / 20"
  by (simp add: content_bad_contact analyze_overall [OF raw_text_bad_contact] blank_white_text
      blank_formatting blank_streams empty_text_keywords empty_text_invisible empty_signal_simps
      contact_info_bad_contact)

text \<open>
  The part of claim C2 that holds: on every analysis that does not end in the fallback
  report, the overall score is the arithmetic mean of the scores of the six signals of
  the report.
\<close>

theorem overall_risk_score_mean:
  assumes "raw_text pd = Some t"
  shows "overall_risk_score (analyze L doc pd) =
     sum_list (map (\<lambda>(name, s). risk_score s) (detailed_analysis (analyze L doc pd))) / 6 \<and>
   map snd (detailed_analysis (analyze L doc pd)) =
     [detect_white_text doc, detect_keyword_stuffing L t, detect_invisible_characters t,
      analyze_suspicious_formatting doc, analyze_content_authenticity L pd,
      analyze_pdf_content_streams doc]"
  by (simp add: analyze_overall [OF assms] analyze_detailed [OF assms])

theorem overall_risk_score_mean_witness:
  "overall_risk_score (analyze sample_library blank_document parsed_empty) = 1 / 60 \<and>
   length (detailed_analysis (analyze sample_library blank_document parsed_empty)) = 6"
  using overall_risk_score_mean [OF raw_text_parsed_empty,
      where L = sample_library and doc = blank_document]
  by (simp add: analyze_detailed [OF raw_text_parsed_empty] blank_white_text blank_formatting
      blank_streams empty_text_keywords empty_text_invisible empty_signal_simps
      content_parsed_empty sample_library_def ascii_library_def)







lemma broken_formatting: "analyze_suspicious_formatting broken_document = empty_signal"
  by (simp add: analyze_suspicious_formatting_def broken_document_def)




subsection \<open>Colours that do not parse\<close>

lemma rgb_of_None_light: "rgb_of c = None \<Longrightarrow> \<not> is_light_color c"
  by (simp add: is_light_color_def)

lemma rgb_of_None_similar:
  "rgb_of c = None \<Longrightarrow> \<not> colors_too_similar bg c \<and> \<not> colors_too_similar c bg"
  by (simp add: colors_too_similar_def split: option.splits)

lemma rgb_of_black: "rgb_of (PStr ''#000000'') = Some (0, 0, 0)"
  by (simp add: rgb_of_def lstrip_hash_def hexval_def)

lemma rgb_of_short: "rgb_of (PStr ''#fff'') = None"
  by (simp add: rgb_of_def lstrip_hash_def)

text \<open>
  Claim C10, as amended. A colour that the helpers cannot convert (a value that is not a
  string; a string that has not six characters after the leading \<open>#\<close> are removed; a
  string with a channel that \<open>int(_, 16)\<close> rejects) is not light and is similar to no
  colour. So a character whose colour is present and does not convert gets no hit from
  its colour. A character without the key \<open>color\<close> skips the light-colour check, but the
  collision check reads \<open>char.get('color', '#000000')\<close>: the absent colour counts as black
  and collides with a background that is within distance 30 of black.
\<close>

theorem unparsable_color_no_hit:
  "(rgb_of c = None \<longrightarrow>
      \<not> is_light_color c \<and> \<not> colors_too_similar bg c \<and> \<not> colors_too_similar c bg) \<and>
   (ch_color g = Some c \<and> rgb_of c = None \<longrightarrow> \<not> light_hit g \<and> \<not> bg_hit g) \<and>
   (ch_color g = None \<longrightarrow>
      \<not> light_hit g \<and>
      bg_hit g = (case ch_bgcolor g of
                    None \<Rightarrow> False
                  | Some bg \<Rightarrow> truthy bg \<and> colors_too_similar bg (PStr ''#000000''))) \<and>
   rgb_of PNone = None \<and> rgb_of (PNum r) = None \<and> rgb_of (PSeq xs) = None \<and>
   (length (lstrip_hash s) \<noteq> 6 \<longrightarrow> rgb_of (PStr s) = None) \<and>
   (int16 (take 2 (lstrip_hash s)) = None \<or> int16 (take 2 (drop 2 (lstrip_hash s))) = None \<or>
    int16 (take 2 (drop 4 (lstrip_hash s))) = None \<longrightarrow> rgb_of (PStr s) = None)"
proof -
  have "ch_color g = Some c \<and> rgb_of c = None \<longrightarrow> \<not> light_hit g \<and> \<not> bg_hit g"
    using rgb_of_None_light [of c] rgb_of_None_similar [of c]
    by (auto simp: light_hit_def bg_hit_def get_or_def split: option.splits)
  moreover have "ch_color g = None \<longrightarrow>
      \<not> light_hit g \<and>
      bg_hit g = (case ch_bgcolor g of
                    None \<Rightarrow> False
                  | Some bg \<Rightarrow> truthy bg \<and> colors_too_similar bg (PStr ''#000000''))"
    by (auto simp: light_hit_def bg_hit_def get_or_def split: option.splits)
  moreover have "rgb_of PNone = None \<and> rgb_of (PNum r) = None \<and> rgb_of (PSeq xs) = None \<and>
   (length (lstrip_hash s) \<noteq> 6 \<longrightarrow> rgb_of (PStr s) = None) \<and>
   (int16 (take 2 (lstrip_hash s)) = None \<or> int16 (take 2 (drop 2 (lstrip_hash s))) = None \<or>
    int16 (take 2 (drop 4 (lstrip_hash s))) = None \<longrightarrow> rgb_of (PStr s) = None)"
    by (auto simp: rgb_of_def Let_def split: option.splits)
  ultimately show ?thesis
    using rgb_of_None_light [of c] rgb_of_None_similar [of c bg] by blast
qed

theorem unparsable_color_no_hit_witness:
  "ch_color glyph_short_color = Some (PStr ''#fff'') \<and> rgb_of (PStr ''#fff'') = None \<and>
   \<not> light_hit glyph_short_color \<and> \<not> bg_hit glyph_short_color"
  using unparsable_color_no_hit [where g = glyph_short_color and c = "PStr ''#fff''"]
  by (simp add: rgb_of_short) (simp add: glyph_short_color_def)

theorem absent_color_collision_counterexample:
  "ch_color glyph_without_color = None \<and> bg_hit glyph_without_color \<and>
   page_suspicious \<lparr>chars = [glyph_without_color], bbox = (0, 0, 612, 792)\<rparr> = Some 1"
  by (simp add: glyph_without_color_def bg_hit_def get_or_def colors_too_similar_def rgb_of_black
      page_suspicious_def light_hit_def off_page_def py_or_def)

subsection \<open>The white-text signal\<close>

lemma scan_pages_total:
  "scan_pages pages = Some (s, t) \<Longrightarrow> t = length (concat (map chars pages))"
  by (induction pages arbitrary: s t) (auto split: Option.bind_splits)

lemma tiny_text_count_filter:
  "color_size_hits cs = Some n \<Longrightarrow>
   tiny_text_count cs =
     Some (length (filter (\<lambda>g. py_lt (get_or (ch_size g) (PNum 12)) 3 = Some True) cs))"
proof (induction cs arbitrary: n)
  case Nil
  then show ?case by simp
next
  case (Cons g gs)
  then obtain b m where b: "py_lt (get_or (ch_size g) (PNum 12)) 2 = Some b"
    and m: "color_size_hits gs = Some m"
    by (auto split: Option.bind_splits)
  from b obtain r where r: "get_or (ch_size g) (PNum 12) = PNum r"
    by (cases "get_or (ch_size g) (PNum 12)") auto
  show ?case
    using Cons.IH [OF m] r by simp
qed

lemma scan_pages_last:
  "scan_pages pages = Some r \<Longrightarrow> pages \<noteq> [] \<Longrightarrow>
   \<exists>n. color_size_hits (chars (last pages)) = Some n"
proof (induction pages arbitrary: r)
  case Nil
  then show ?case by simp
next
  case (Cons p ps)
  then show ?case
    by (cases ps) (auto simp: page_suspicious_def split: Option.bind_splits)
qed

lemma tiny_on_last_page:
  "pages \<noteq> [] \<Longrightarrow>
   list_all (\<lambda>p. list_all (\<lambda>g. py_lt (get_or (ch_size g) (PNum 12)) 3 \<noteq> Some True) (chars p))
     (butlast pages) \<Longrightarrow>
   filter (\<lambda>g. py_lt (get_or (ch_size g) (PNum 12)) 3 = Some True) (concat (map chars pages)) =
   filter (\<lambda>g. py_lt (get_or (ch_size g) (PNum 12)) 3 = Some True) (chars (last pages))"
proof (induction pages)
  case Nil
  then show ?case by simp
next
  case (Cons p ps)
  show ?case
  proof (cases ps)
    case Nil
    then show ?thesis by simp
  next
    case (Cons q qs)
    with Cons.prems have "filter (\<lambda>g. py_lt (get_or (ch_size g) (PNum 12)) 3 = Some True) (chars p) = []"
      by (auto simp: list_all_iff filter_empty_conv)
    moreover from Cons Cons.prems Cons.IH
    have "filter (\<lambda>g. py_lt (get_or (ch_size g) (PNum 12)) 3 = Some True) (concat (map chars ps)) =
      filter (\<lambda>g. py_lt (get_or (ch_size g) (PNum 12)) 3 = Some True) (chars (last ps))"
      by simp
    ultimately show ?thesis
      using Cons by simp
  qed
qed

text \<open>
  Claim C7, as amended. Let a PDF have at least one character and let the loops over its
  pages not raise. \<open>total_count\<close> is the number of all characters and
  \<open>white_text_ratio = suspicious_count / total_count\<close>. The signal is detected when
  \<open>white_text_ratio > 0.05\<close> or \<open>tiny_text_ratio > 0.10\<close>, and each ratio enters the
  score only when it is over its threshold: the score is the larger of
  \<open>min(white_text_ratio * 3, 1)\<close> if \<open>white_text_ratio > 0.05\<close>, else 0, and
  \<open>min(tiny_text_ratio * 2, 1)\<close> if \<open>tiny_text_ratio > 0.10\<close>, else 0. The theorem is
  stated for the documents whose characters with a font size below 3 all lie on the last
  page (every document of one page is of this kind); there \<open>tiny_text_ratio\<close> is the
  fraction of all characters with a font size below 3.
\<close>

theorem white_text_signal:
  assumes "is_pdf (file_path doc)" and "plumber doc = Some pages"
    and "scan_pages pages = Some (suspicious_count, total_count)" and "total_count > 0"
    and "list_all (\<lambda>p. list_all (\<lambda>g. py_lt (get_or (ch_size g) (PNum 12)) 3 \<noteq> Some True) (chars p))
           (butlast pages)"
  shows "total_count = length (concat (map chars pages)) \<and>
     (let white_text_ratio = real suspicious_count / real total_count;
          tiny_text_ratio =
            real (length (filter (\<lambda>g. py_lt (get_or (ch_size g) (PNum 12)) 3 = Some True)
                            (concat (map chars pages)))) / real total_count
      in detected (detect_white_text doc) = (white_text_ratio > 0.05 \<or> tiny_text_ratio > 0.1) \<and>
         risk_score (detect_white_text doc) =
           max (if white_text_ratio > 0.05 then min (white_text_ratio * 3) 1 else 0)
               (if tiny_text_ratio > 0.1 then min (tiny_text_ratio * 2) 1 else 0))"
proof -
  have total: "total_count = length (concat (map chars pages))"
    using assms(3) by (rule scan_pages_total)
  with assms(4) have ne: "pages \<noteq> []" by auto
  obtain n where "color_size_hits (chars (last pages)) = Some n"
    using scan_pages_last [OF assms(3) ne] by blast
  then have "tiny_text_count (chars (last pages)) =
     Some (length (filter (\<lambda>g. py_lt (get_or (ch_size g) (PNum 12)) 3 = Some True)
                     (chars (last pages))))"
    by (rule tiny_text_count_filter)
  then have tiny: "tiny_text_count (chars (last pages)) =
     Some (length (filter (\<lambda>g. py_lt (get_or (ch_size g) (PNum 12)) 3 = Some True)
                     (concat (map chars pages))))"
    using tiny_on_last_page [OF ne assms(5)] by simp
  define w where "w = real suspicious_count / real total_count"
  define tr where "tr = real (length (filter (\<lambda>g. py_lt (get_or (ch_size g) (PNum 12)) 3 = Some True)
                     (concat (map chars pages)))) / real total_count"
  have w0: "0 \<le> w" by (simp add: w_def)
  have eq: "detect_white_text doc =
     (let analysis =
            (if w > 0.05 then
               empty_signal\<lparr>detected := True, risk_score := min (w * 3) 1,
                 issues := [HiddenText w]\<rparr>
             else empty_signal)
      in if tr > 0.1 then
           analysis\<lparr>detected := True,
             risk_score := max (risk_score analysis) (min (tr * 2) 1),
             issues := issues analysis @ [ExcessiveTinyText tr]\<rparr>
         else analysis)"
    using assms(1,2,3,4) tiny by (simp add: detect_white_text_def Let_def w_def tr_def)
  have "detected (detect_white_text doc) = (w > 0.05 \<or> tr > 0.1) \<and>
     risk_score (detect_white_text doc) =
       max (if w > 0.05 then min (w * 3) 1 else 0) (if tr > 0.1 then min (tr * 2) 1 else 0)"
    using w0 unfolding eq by (auto simp: Let_def empty_signal_simps max_def min_def)
  then show ?thesis
    using total by (simp add: Let_def w_def tr_def)
qed

lemma minute_print_scan:
  "scan_pages [\<lparr>chars = [minute_glyph, plain_glyph], bbox = (0, 0, 612, 792)\<rparr>] = Some (1, 2)"
  by (simp add: page_suspicious_def minute_glyph_def plain_glyph_def get_or_def light_hit_def
      is_light_color_def rgb_of_black off_page_def py_or_def overlaps_def py_and_def bg_hit_def)

theorem white_text_signal_witness:
  "is_pdf (file_path minute_print_document) \<and>
   scan_pages [\<lparr>chars = [minute_glyph, plain_glyph], bbox = (0, 0, 612, 792)\<rparr>] = Some (1, 2) \<and>
   detected (detect_white_text minute_print_document) \<and>
   risk_score (detect_white_text minute_print_document) = 1"
proof -
  have p: "is_pdf (file_path minute_print_document)"
    "plumber minute_print_document =
       Some [\<lparr>chars = [minute_glyph, plain_glyph], bbox = (0, 0, 612, 792)\<rparr>]"
    by (simp_all add: minute_print_document_def is_pdf_cv)
  have t: "length (filter (\<lambda>g. py_lt (get_or (ch_size g) (PNum 12)) 3 = Some True)
      [minute_glyph, plain_glyph]) = 1"
    by (simp add: minute_glyph_def plain_glyph_def get_or_def)
  show ?thesis
    using white_text_signal [OF p minute_print_scan] p(1) minute_print_scan t
    by (simp add: Let_def)
qed

text \<open>
  The formula of claim C7 as stated fails below the thresholds: ten characters, one of them
  of size 2.5 and none suspicious, give \<open>tiny_text_ratio = 0.1\<close>, which is not over 0.10,
  so the score is 0 and not \<open>min(0.1 * 2, 1) = 0.2\<close>.
\<close>

lemma plain_color_size: "color_size_hits (replicate n plain_glyph) = Some 0"
  by (induction n)
     (simp_all add: plain_glyph_def get_or_def light_hit_def is_light_color_def rgb_of_black)

lemma plain_off_page: "off_page_hits (0, 0, 612, 792) (replicate n plain_glyph) = Some 0"
  by (induction n) (simp_all add: plain_glyph_def get_or_def off_page_def py_or_def)

lemma plain_overlaps_with:
  "ch_x0 g = Some (PNum x) \<Longrightarrow> ch_y0 g = Some (PNum y) \<Longrightarrow> ch_text g = Some (PStr ''a'') \<Longrightarrow>
   overlaps_with g (replicate n plain_glyph) = Some 0"
  by (induction n)
     (auto simp: plain_glyph_def get_or_def overlaps_def py_and_def split: bool.splits)

lemma plain_overlaps_plain: "overlaps_with plain_glyph (replicate n plain_glyph) = Some 0"
  by (rule plain_overlaps_with [where x = 72 and y = 700]) (simp_all add: plain_glyph_def)

lemma small_overlaps_plain: "overlaps_with small_glyph (replicate n plain_glyph) = Some 0"
  by (rule plain_overlaps_with [where x = 72 and y = 700])
     (simp_all add: small_glyph_def plain_glyph_def)

lemma plain_overlapping: "overlapping_count (replicate n plain_glyph) = Some 0"
  by (induction n) (simp_all add: plain_overlaps_plain)

lemma plain_bg: "filter bg_hit (replicate n plain_glyph) = []"
  by (induction n) (simp_all add: plain_glyph_def bg_hit_def)

lemma plain_tiny: "tiny_text_count (replicate n plain_glyph) = Some 0"
  by (induction n) (simp_all add: plain_glyph_def get_or_def)

lemma small_glyph_checks:
  "py_lt (get_or (ch_size small_glyph) (PNum 12)) 2 = Some False"
  "py_lt (get_or (ch_size small_glyph) (PNum 12)) 3 = Some True"
  "light_hit small_glyph = False" "bg_hit small_glyph = False"
  "off_page (0, 0, 612, 792) small_glyph = Some False"
  by (simp_all add: small_glyph_def plain_glyph_def get_or_def light_hit_def is_light_color_def
      rgb_of_black off_page_def py_or_def bg_hit_def)

lemma small_print_scan:
  "scan_pages [\<lparr>chars = small_glyph # replicate 9 plain_glyph, bbox = (0, 0, 612, 792)\<rparr>]
     = Some (0, 10)"
  by (simp add: page_suspicious_def plain_color_size plain_off_page plain_overlapping plain_bg
      small_overlaps_plain small_glyph_checks)

lemma small_print_tiny:
  "tiny_text_count (small_glyph # replicate 9 plain_glyph) = Some 1"
  by (simp add: plain_tiny small_glyph_checks)

lemma small_print_score: "risk_score (detect_white_text small_print_document) = 0"
  by (simp add: detect_white_text_def small_print_document_def is_pdf_cv small_print_scan
      small_print_tiny empty_signal_simps del: scan_pages.simps tiny_text_count.simps)

theorem white_text_formula_counterexample:
  "scan_pages [\<lparr>chars = small_glyph # replicate 9 plain_glyph, bbox = (0, 0, 612, 792)\<rparr>]
     = Some (0, 10) \<and>
   tiny_text_count (small_glyph # replicate 9 plain_glyph) = Some 1 \<and>
   risk_score (detect_white_text small_print_document) = 0 \<and>
   max (min (0 / 10 * 3) 1) (min (1 / 10 * 2) 1) = (1 / 5 :: real)"
  by (intro conjI) (rule small_print_scan, rule small_print_tiny, rule small_print_score, simp)

end
